theory Spec2Isabelle
  imports Main "HOL-Library.Sublist" "HOL-Library.AList"
begin

section \<open>Cleaning CSV files of rows whose state or district is 100000\<close>

text \<open>
  A shallow embedding of \<^verbatim>\<open>Cleaning_dataset_to_remove_100000.py\<close>. The script walks a
  directory of CSV files, reads each one with pandas in chunks of 100,000 rows (every
  column as text), drops the rows whose state-like or district-like column holds the
  string 100000, appends the remaining rows to a mirrored output file and appends the
  dropped rows to one audit log.

  What the script leaves to pandas and to the file system is modelled as follows.
  \<^item> A CSV file that pandas parses is a \<open>dataframe\<close>: its header names and its rows, a row
    being the list of its cells in header order. A cell is \<open>Some s\<close> for the text \<open>s\<close> and
    \<open>None\<close> for a missing value (NaN), which is what \<^verbatim>\<open>dtype=str\<close> gives for an empty
    field. pandas makes the header names of a frame distinct, so a name selects one
    column. Files that pandas refuses (no header line, ragged rows) are outside the model,
    and so are I/O failures of the operating system.
  \<^item> A text file is the list of its lines. A line that the CSV writer produced is kept as
    the record it encodes, \<open>Fields sep fs\<close>, so that the quoting rules of the writer play no
    role; any other line is \<open>Text s\<close>.
  \<^item> Header names are strings of ASCII characters, and \<^verbatim>\<open>str.lower\<close> is lower-casing of
    the letters A to Z.
  \<^item> An exception is the left summand of the result, together with the world as it was
    when the exception was raised.
\<close>

subsection \<open>Column role detector\<close>

definition lower_char :: "char \<Rightarrow> char" where
  "lower_char c =
     (case map_of (zip ''ABCDEFGHIJKLMNOPQRSTUVWXYZ'' ''abcdefghijklmnopqrstuvwxyz'') c of
        None \<Rightarrow> c
      | Some l \<Rightarrow> l)"

definition lower :: "string \<Rightarrow> string" where
  "lower s = map lower_char s"

text \<open>
  \<^verbatim>\<open>lower_cols = {c.lower(): c for c in columns}\<close>. A Python dict keeps its keys in the
  order of their first insertion and a later insertion under an existing key replaces the
  value in place, which is \<open>AList.update\<close> on an association list.
\<close>

definition lower_cols_of :: "string list \<Rightarrow> (string \<times> string) list" where
  "lower_cols_of cs = foldl (\<lambda>d c. AList.update (lower c) c d) [] cs"

text \<open>
  \<^verbatim>\<open>next((lower_cols[c] for c in lower_cols if pat in c), None)\<close>: the first key, in
  the order of the dict, that has \<open>pat\<close> as a substring, looked up in the dict.
\<close>

definition first_match :: "string \<Rightarrow> (string \<times> string) list \<Rightarrow> string option" where
  "first_match pat d =
     (case find (\<lambda>c. sublist pat c) (map fst d) of
        None \<Rightarrow> None
      | Some c \<Rightarrow> map_of d c)"

definition state_district_columns :: "string list \<Rightarrow> string option \<times> string option" where
  "state_district_columns cs =
     (let lower_cols = lower_cols_of cs;
          state_col = first_match ''state'' lower_cols;
          district_col = first_match ''district'' lower_cols
      in (state_col, district_col))"

text \<open>Python's truth value of an optional string: \<^verbatim>\<open>None\<close> and the empty string are false.\<close>

fun truthy :: "string option \<Rightarrow> bool" where
  "truthy None = False"
| "truthy (Some s) = (s \<noteq> [])"

subsection \<open>Data frames\<close>

type_synonym cell = "string option"

record dataframe =
  columns :: "string list"
  rows :: "cell list list"

datatype error = FileNotFoundError string | KeyError string

datatype line = Text string | Fields char "string list"

fun index_of :: "'a \<Rightarrow> 'a list \<Rightarrow> nat" where
  "index_of x [] = 0"
| "index_of x (y # ys) = (if x = y then 0 else Suc (index_of x ys))"

text \<open>\<^verbatim>\<open>chunk[c]\<close>: the cells of column \<open>c\<close>, or a \<^verbatim>\<open>KeyError\<close> when no column has that name.\<close>

definition getitem :: "dataframe \<Rightarrow> string \<Rightarrow> error + cell list" where
  "getitem df c =
     (if c \<in> set (columns df)
      then Inr (map (\<lambda>r. r ! index_of c (columns df)) (rows df))
      else Inl (KeyError c))"

text \<open>
  \<^verbatim>\<open>series == "100000"\<close>: elementwise equality of strings; a missing value equals
  nothing.
\<close>

definition series_eq :: "cell list \<Rightarrow> string \<Rightarrow> bool list" where
  "series_eq s v = map (\<lambda>x. x = Some v) s"

text \<open>
  The variable \<^verbatim>\<open>mask\<close> starts as the Python scalar \<^verbatim>\<open>False\<close> and becomes a boolean
  series once a series has been or-ed into it.
\<close>

datatype mask = Scalar_False | Series "bool list"

fun mask_or :: "mask \<Rightarrow> bool list \<Rightarrow> mask" where
  "mask_or Scalar_False s = Series s"
| "mask_or (Series m) s = Series (map2 (\<or>) m s)"

text \<open>
  \<^verbatim>\<open>~mask\<close>. On the scalar the script never reaches it: \<^verbatim>\<open>chunk[mask]\<close> on the line
  before raises first.
\<close>

fun mask_not :: "mask \<Rightarrow> mask" where
  "mask_not Scalar_False = Scalar_False"
| "mask_not (Series m) = Series (map Not m)"

text \<open>
  \<^verbatim>\<open>chunk[mask]\<close>: the rows at which a boolean series is true; indexing a frame with
  the scalar \<^verbatim>\<open>False\<close> looks for a column of that name and raises.
\<close>

fun select_rows :: "dataframe \<Rightarrow> mask \<Rightarrow> error + dataframe" where
  "select_rows df Scalar_False = Inl (KeyError ''False'')"
| "select_rows df (Series m) = Inr (df\<lparr>rows := map fst (filter snd (zip (rows df) m))\<rparr>)"

text \<open>\<^verbatim>\<open>if col: mask = mask | (chunk[col] == "100000")\<close>\<close>

fun mask_step :: "dataframe \<Rightarrow> string option \<Rightarrow> mask \<Rightarrow> error + mask" where
  "mask_step chunk None m = Inr m"
| "mask_step chunk (Some c) m =
     (if truthy (Some c) then
        (case getitem chunk c of
           Inl e \<Rightarrow> Inl e
         | Inr s \<Rightarrow> Inr (mask_or m (series_eq s ''100000'')))
      else Inr m)"

text \<open>Lines 46 to 53 of the script: the mask, then the removed and the kept rows.\<close>

definition partition_rows ::
  "dataframe \<Rightarrow> string option \<Rightarrow> string option \<Rightarrow> error + (dataframe \<times> dataframe)" where
  "partition_rows chunk state_col district_col =
     (case mask_step chunk state_col Scalar_False of
        Inl e \<Rightarrow> Inl e
      | Inr m1 \<Rightarrow>
     (case mask_step chunk district_col m1 of
        Inl e \<Rightarrow> Inl e
      | Inr m \<Rightarrow>
     (case select_rows chunk m of
        Inl e \<Rightarrow> Inl e
      | Inr removed_rows \<Rightarrow>
     (case select_rows chunk (mask_not m) of
        Inl e \<Rightarrow> Inl e
      | Inr kept_rows \<Rightarrow> Inr (removed_rows, kept_rows)))))"

text \<open>\<^verbatim>\<open>df.empty\<close>: some axis of the frame has length zero.\<close>

definition df_empty :: "dataframe \<Rightarrow> bool" where
  "df_empty df = (columns df = [] \<or> rows df = [])"

text \<open>
  \<^verbatim>\<open>df.to_csv(sep=sep, index=False, header=header)\<close>: the header record when asked
  for, then one record for each row, a missing value written as the empty string.
\<close>

definition na_rep :: "cell \<Rightarrow> string" where
  "na_rep c = (case c of None \<Rightarrow> [] | Some s \<Rightarrow> s)"

definition row_line :: "char \<Rightarrow> cell list \<Rightarrow> line" where
  "row_line sep r = Fields sep (map na_rep r)"

definition to_csv :: "char \<Rightarrow> bool \<Rightarrow> dataframe \<Rightarrow> line list" where
  "to_csv sep header df =
     (if header then [Fields sep (columns df)] else []) @ map (row_line sep) (rows df)"

definition TAB :: char where
  "TAB = CHR 0x09"

definition COMMA :: char where
  "COMMA = CHR '',''"

text \<open>
  \<^verbatim>\<open>pd.read_csv(path, chunksize=n, dtype=str)\<close> as the list of the chunks it yields:
  consecutive blocks of \<open>n\<close> rows (the last one may be shorter) under the header of the
  file. For a file with a header and no data row pandas yields one chunk, the empty frame
  with the columns of the header, and then stops: the first read of a reader returns the
  empty frame where a later read ends the iteration. The script passes 100,000 for \<open>n\<close>;
  for \<open>n = 0\<close>, which pandas rejects, \<open>chunks_of\<close> returns no block.
\<close>

function chunks_of :: "nat \<Rightarrow> 'a list \<Rightarrow> 'a list list" where
  "chunks_of n xs = (if n = 0 \<or> xs = [] then [] else take n xs # chunks_of n (drop n xs))"
  by pat_completeness auto
termination
  by (relation "measure (\<lambda>(n, xs). length xs)") auto

declare chunks_of.simps [simp del]

definition read_csv :: "nat \<Rightarrow> dataframe \<Rightarrow> dataframe list" where
  "read_csv n csv =
     (if rows csv = [] then [csv]
      else map (\<lambda>rs. csv\<lparr>rows := rs\<rparr>) (chunks_of n (rows csv)))"

definition chunksize :: nat where
  "chunksize = 100000"

subsection \<open>The file system and the console\<close>

text \<open>
  A path is the list of its components. \<open>data_dir\<close> is \<open>None\<close> when the data directory does
  not exist, and otherwise the CSV files that the recursive scan finds, in scan order,
  each with its path relative to the data directory. \<open>cleaned_dirs\<close> are the directories
  that exist at or below the output root, relative to it, so the root itself is \<open>[]\<close>;
  \<open>cleaned_files\<close> are the files below it. \<open>log_file\<close> is the audit log, \<open>None\<close> when the
  file does not exist. \<open>stdout\<close> are the lines printed so far.
\<close>

type_synonym path = "string list"

record world =
  data_dir :: "(path \<times> dataframe) list option"
  cleaned_dirs :: "path set"
  cleaned_files :: "path \<rightharpoonup> line list"
  log_file :: "line list option"
  stdout :: "string list"

text \<open>The three paths of the script, written relative to the root of the project.\<close>

definition DATA_DIR :: string where
  "DATA_DIR = ''data''"

definition CLEANED_ROOT :: string where
  "CLEANED_ROOT = ''cleaned-dataset''"

definition LOG_FILE :: string where
  "LOG_FILE = ''madhan-notebooks/Python_scripts/CLEANING_100000/removed_100000_entries.txt''"

fun path_str :: "path \<Rightarrow> string" where
  "path_str [] = ''.''"
| "path_str [x] = x"
| "path_str (x # xs) = x @ ''/'' @ path_str xs"

definition digit :: "nat \<Rightarrow> char" where
  "digit d = ''0123456789'' ! d"

function str_nat :: "nat \<Rightarrow> string" where
  "str_nat n = (if n < 10 then [digit n] else str_nat (n div 10) @ [digit (n mod 10)])"
  by pat_completeness auto
termination
  by (relation "measure id") auto

declare str_nat.simps [simp del]

definition print :: "string \<Rightarrow> world \<Rightarrow> world" where
  "print s w = w\<lparr>stdout := stdout w @ [s]\<rparr>"

definition existing :: "line list option \<Rightarrow> line list" where
  "existing f = (case f of None \<Rightarrow> [] | Some ls \<Rightarrow> ls)"

text \<open>Writing to a file opened with mode \<^verbatim>\<open>"a"\<close>: the file is created when it is missing.\<close>

definition append_file :: "path \<Rightarrow> line list \<Rightarrow> world \<Rightarrow> world" where
  "append_file p ls w =
     w\<lparr>cleaned_files := (cleaned_files w)(p \<mapsto> existing (cleaned_files w p) @ ls)\<rparr>"

text \<open>
  \<^verbatim>\<open>_write_log\<close>. The directory of the log is the directory of the script, so creating it
  changes nothing.
\<close>

definition write_log :: "line list \<Rightarrow> world \<Rightarrow> world" where
  "write_log ls w = w\<lparr>log_file := Some (existing (log_file w) @ ls)\<rparr>"

subsection \<open>File processor\<close>

record locals =
  first_chunk :: bool
  removed_any :: bool
  log_lines :: "line list"

text \<open>The body of the loop over the chunks, lines 38 to 63.\<close>

definition process_chunk ::
  "path \<Rightarrow> dataframe \<Rightarrow> locals \<times> world \<Rightarrow> (error \<times> world) + (locals \<times> world)" where
  "process_chunk rel_path chunk st =
     (let (l, w) = st;
          (state_col, district_col) = state_district_columns (columns chunk)
      in if \<not> truthy state_col \<and> \<not> truthy district_col then
           (let w1 = (if first_chunk l
                      then print (''[SKIP] No state/district columns in '' @ path_str rel_path) w
                      else w);
                w2 = append_file rel_path (to_csv COMMA (first_chunk l) chunk) w1
            in Inr (l\<lparr>first_chunk := False\<rparr>, w2))
         else
           (case partition_rows chunk state_col district_col of
              Inl e \<Rightarrow> Inl (e, w)
            | Inr (removed_rows, kept_rows) \<Rightarrow>
                (let (l1, w1) =
                       (if \<not> df_empty removed_rows then
                          (l\<lparr>removed_any := True,
                             log_lines := log_lines l
                               @ [Text (''FILE: '' @ path_str rel_path)]
                               @ to_csv TAB True removed_rows
                               @ [Text []]\<rparr>,
                           print (''[REMOVE] '' @ str_nat (length (rows removed_rows))
                                    @ '' rows from '' @ path_str rel_path) w)
                        else (l, w));
                     w2 = append_file rel_path (to_csv COMMA (first_chunk l) kept_rows) w1
                 in Inr (l1\<lparr>first_chunk := False\<rparr>, w2))))"

fun process_chunks ::
  "path \<Rightarrow> dataframe list \<Rightarrow> locals \<times> world \<Rightarrow> (error \<times> world) + (locals \<times> world)" where
  "process_chunks rel_path [] st = Inr st"
| "process_chunks rel_path (chunk # chunks) st =
     (case process_chunk rel_path chunk st of
        Inl e \<Rightarrow> Inl e
      | Inr st' \<Rightarrow> process_chunks rel_path chunks st')"

text \<open>
  \<^verbatim>\<open>_process_file\<close> with the chunks that the reader yields as an argument: the directory
  of the target is created, the loop runs, and the log lines of the file are flushed.
\<close>

definition process_file_on :: "path \<Rightarrow> dataframe list \<Rightarrow> world \<Rightarrow> (error \<times> world) + world" where
  "process_file_on rel_path chunks w =
     (let w0 = w\<lparr>cleaned_dirs := cleaned_dirs w \<union> set (prefixes (butlast rel_path))\<rparr>
      in case process_chunks rel_path chunks
                (\<lparr>first_chunk = True, removed_any = False, log_lines = []\<rparr>, w0) of
           Inl e \<Rightarrow> Inl e
         | Inr (l, w1) \<Rightarrow>
             (let w2 = (if removed_any l \<and> log_lines l \<noteq> [] then write_log (log_lines l) w1
                        else w1);
                  w3 = (if \<not> removed_any l
                        then print (''[CLEAN] No rows with value 100000 in '' @ path_str rel_path) w2
                        else w2)
              in Inr w3))"

definition process_file :: "path \<Rightarrow> dataframe \<Rightarrow> world \<Rightarrow> (error \<times> world) + world" where
  "process_file rel_path csv w = process_file_on rel_path (read_csv chunksize csv) w"

subsection \<open>Run orchestrator\<close>

fun process_files :: "(path \<times> dataframe) list \<Rightarrow> world \<Rightarrow> (error \<times> world) + world" where
  "process_files [] w = Inr w"
| "process_files ((rel_path, csv) # fs) w =
     (case process_file rel_path csv w of
        Inl e \<Rightarrow> Inl e
      | Inr w' \<Rightarrow> process_files fs w')"

definition main :: "world \<Rightarrow> (error \<times> world) + world" where
  "main w =
     (case data_dir w of
        None \<Rightarrow> Inl (FileNotFoundError (''Data directory not found: '' @ DATA_DIR), w)
      | Some csv_files \<Rightarrow>
          (let w1 = (if [] \<in> cleaned_dirs w
                     then print (''[INFO] Cleaned dataset dir exists: '' @ CLEANED_ROOT) w
                     else print (''[INFO] Created cleaned dataset dir: '' @ CLEANED_ROOT)
                            (w\<lparr>cleaned_dirs := insert [] (cleaned_dirs w)\<rparr>));
               w2 = (case log_file w1 of
                       None \<Rightarrow> w1
                     | Some old \<Rightarrow>
                         print (''[INFO] Cleared previous log: '' @ LOG_FILE) (w1\<lparr>log_file := None\<rparr>))
           in if csv_files = [] then
                Inr (print (''[WARN] No CSV files found under '' @ DATA_DIR) w2)
              else
                (case process_files csv_files
                        (print (''[INFO] Found '' @ str_nat (length csv_files)
                                  @ '' CSV files under '' @ DATA_DIR) w2) of
                   Inl e \<Rightarrow> Inl e
                 | Inr w3 \<Rightarrow>
                     Inr (print (''[LOG] Removed entries logged to '' @ LOG_FILE)
                            (print (''[DONE] Finished cleaning. Cleaned files in '' @ CLEANED_ROOT)
                               w3)))))"

subsection \<open>Notions used to state the properties\<close>

text \<open>
  The header that the detector selects for a pattern, described on the header list alone:
  take the first header whose lower-case form contains the pattern, and return the last
  header of the list that has the same lower-case form.
\<close>

definition role_column :: "string \<Rightarrow> string list \<Rightarrow> string option" where
  "role_column pat cs =
     (case find (\<lambda>c. sublist pat (lower c)) cs of
        None \<Rightarrow> None
      | Some c \<Rightarrow> Some (last (filter (\<lambda>x. lower x = lower c) cs)))"

text \<open>
  The reading "the header most recently matching the pattern": the last header of the
  list whose lower-case form contains the pattern.
\<close>

definition last_match :: "string \<Rightarrow> string list \<Rightarrow> string option" where
  "last_match pat cs =
     (case filter (\<lambda>c. sublist pat (lower c)) cs of
        [] \<Rightarrow> None
      | x # xs \<Rightarrow> Some (last (x # xs)))"

text \<open>
  A row is to be removed when a role column was detected and the row's value in that
  column is the string 100000, for the state role or for the district role.
\<close>

definition sentinel_in :: "string list \<Rightarrow> string option \<Rightarrow> cell list \<Rightarrow> bool" where
  "sentinel_in cs col r =
     (case col of None \<Rightarrow> False | Some c \<Rightarrow> r ! index_of c cs = Some ''100000'')"

definition removed_row :: "string list \<Rightarrow> cell list \<Rightarrow> bool" where
  "removed_row cs r =
     (sentinel_in cs (fst (state_district_columns cs)) r
      \<or> sentinel_in cs (snd (state_district_columns cs)) r)"

text \<open>
  The removed rows of a file, block by block, for the blocks in which some row is
  removed.
\<close>

definition removed_blocks :: "string list \<Rightarrow> cell list list list \<Rightarrow> cell list list list" where
  "removed_blocks cs blocks = filter (\<lambda>R. R \<noteq> []) (map (filter (removed_row cs)) blocks)"

text \<open>
  One record of the audit log: the line naming the file, the header, the rows, and an
  empty line.
\<close>

definition log_record :: "path \<Rightarrow> string list \<Rightarrow> cell list list \<Rightarrow> line list" where
  "log_record p cs R =
     [Text (''FILE: '' @ path_str p), Fields TAB cs] @ map (row_line TAB) R @ [Text []]"

text \<open>What the processor prints for one chunk, for a list of chunks, and for a file.\<close>

definition chunk_messages :: "path \<Rightarrow> dataframe \<Rightarrow> bool \<Rightarrow> string list" where
  "chunk_messages p chunk first =
     (if state_district_columns (columns chunk) = (None, None) then
        (if first then [''[SKIP] No state/district columns in '' @ path_str p] else [])
      else if filter (removed_row (columns chunk)) (rows chunk) = [] then []
      else [''[REMOVE] '' @ str_nat (length (filter (removed_row (columns chunk)) (rows chunk)))
              @ '' rows from '' @ path_str p])"

fun chunks_messages :: "path \<Rightarrow> dataframe list \<Rightarrow> bool \<Rightarrow> string list" where
  "chunks_messages p [] first = []"
| "chunks_messages p (chunk # chunks) first =
     chunk_messages p chunk first @ chunks_messages p chunks False"

definition file_messages :: "path \<Rightarrow> string list \<Rightarrow> dataframe list \<Rightarrow> string list" where
  "file_messages p cs chunks =
     chunks_messages p chunks True @
     (if removed_blocks cs (map rows chunks) = []
      then [''[CLEAN] No rows with value 100000 in '' @ path_str p]
      else [])"

text \<open>The world after the lines \<open>ls\<close> were appended to the output file \<open>p\<close> and \<open>msgs\<close> printed.\<close>

definition wrote :: "path \<Rightarrow> line list \<Rightarrow> string list \<Rightarrow> world \<Rightarrow> world" where
  "wrote p ls msgs w =
     w\<lparr>cleaned_files := (cleaned_files w)(p \<mapsto> existing (cleaned_files w p) @ ls),
       stdout := stdout w @ msgs\<rparr>"

text \<open>The world in which a run ended, whether it returned or raised.\<close>

definition result_world :: "(error \<times> world) + world \<Rightarrow> world" where
  "result_world r = (case r of Inl (e, w) \<Rightarrow> w | Inr w \<Rightarrow> w)"

text \<open>An existing, empty output root, no audit log, nothing printed.\<close>

definition fresh_world :: world where
  "fresh_world =
     \<lparr>data_dir = Some [], cleaned_dirs = {[]}, cleaned_files = Map.empty,
      log_file = None, stdout = []\<rparr>"

subsection \<open>Sample inputs\<close>

text \<open>
  A small file with one row to drop for its state, one to drop for its district and one to
  keep; a file of 100,001 rows whose first and last rows are to be dropped, so that they
  fall into different chunks; and a world with one data file of one row and no output
  tree yet, on which the script is run twice.
\<close>

definition scenario_csv :: dataframe where
  "scenario_csv =
     \<lparr>columns = [''StateCode'', ''District_Name''],
      rows = [[Some ''100000'', Some ''X''], [Some ''12'', Some ''100000''],
              [Some ''5'', Some ''Y'']]\<rparr>"

definition big_csv :: dataframe where
  "big_csv =
     \<lparr>columns = [''state''],
      rows = [Some ''100000''] # replicate 99999 [Some ''1''] @ [[Some ''100000'']]\<rparr>"

definition first_run_world :: world where
  "first_run_world =
     \<lparr>data_dir = Some [([''a.csv''], \<lparr>columns = [''state''], rows = [[Some ''7'']]\<rparr>)],
      cleaned_dirs = {}, cleaned_files = Map.empty, log_file = None, stdout = []\<rparr>"

section \<open>Auxiliary facts\<close>

subsection \<open>The column role detector\<close>

lemma find_update_keys:
  "find P (map fst (AList.update k v d)) =
     (case find P (map fst d) of Some x \<Rightarrow> Some x | None \<Rightarrow> if P k then Some k else None)"
  by (induction d) (auto split: option.splits)

lemma find_keys_foldl:
  "find P (map fst (foldl (\<lambda>d c. AList.update (f c) c d) d0 cs)) =
     (case find P (map fst d0) of Some x \<Rightarrow> Some x | None \<Rightarrow> find P (map f cs))"
  by (induction cs arbitrary: d0) (auto simp: find_update_keys split: option.splits)

lemma map_of_foldl:
  "map_of (foldl (\<lambda>d c. AList.update (f c) c d) d0 cs) k =
     (case filter (\<lambda>c. f c = k) cs of [] \<Rightarrow> map_of d0 k | x # xs \<Rightarrow> Some (last (x # xs)))"
  by (induction cs rule: rev_induct) (auto simp: update_conv' split: list.splits)

lemma find_map_comp: "find P (map f xs) = map_option f (find (\<lambda>x. P (f x)) xs)"
  by (induction xs) auto

lemma find_Some_mem: "find P xs = Some x \<Longrightarrow> x \<in> set xs \<and> P x"
  by (induction xs) (auto split: if_splits)

lemma map_of_lower_cols:
  "map_of (lower_cols_of cs) k =
     (case filter (\<lambda>c. lower c = k) cs of [] \<Rightarrow> None | x # xs \<Rightarrow> Some (last (x # xs)))"
  by (simp add: lower_cols_of_def map_of_foldl split: list.splits)

lemma find_keys_lower_cols:
  "find P (map fst (lower_cols_of cs)) = map_option lower (find (\<lambda>c. P (lower c)) cs)"
  unfolding lower_cols_of_def find_keys_foldl by (simp add: find_map_comp)

lemma first_match_lower_cols: "first_match pat (lower_cols_of cs) = role_column pat cs"
proof (cases "find (\<lambda>c. sublist pat (lower c)) cs")
  case None
  then show ?thesis
    by (simp add: first_match_def role_column_def find_keys_lower_cols)
next
  case (Some c)
  then have "c \<in> set cs" using find_Some_mem by fastforce
  then have "filter (\<lambda>x. lower x = lower c) cs \<noteq> []"
    by (auto simp: filter_empty_conv)
  then obtain y ys where "filter (\<lambda>x. lower x = lower c) cs = y # ys"
    by (cases "filter (\<lambda>x. lower x = lower c) cs") auto
  with Some show ?thesis
    by (simp add: first_match_def role_column_def find_keys_lower_cols map_of_lower_cols)
qed

lemma state_district_columns_eq:
  "state_district_columns cs = (role_column ''state'' cs, role_column ''district'' cs)"
  by (simp add: state_district_columns_def first_match_lower_cols)

lemma role_column_mem:
  assumes "role_column pat cs = Some c" and "pat \<noteq> []"
  shows "c \<in> set cs \<and> c \<noteq> []"
proof -
  from assms(1) obtain c0 where f: "find (\<lambda>c. sublist pat (lower c)) cs = Some c0"
    and c: "c = last (filter (\<lambda>x. lower x = lower c0) cs)"
    by (auto simp: role_column_def split: option.splits)
  from find_Some_mem [OF f] have c0: "c0 \<in> set cs" "sublist pat (lower c0)" by auto
  then have ne: "filter (\<lambda>x. lower x = lower c0) cs \<noteq> []"
    by (auto simp: filter_empty_conv)
  from last_in_set [OF ne] c have "c \<in> set cs" "lower c = lower c0" by auto
  moreover from c0(2) assms(2) have "lower c0 \<noteq> []" by auto
  ultimately show ?thesis by (auto simp: lower_def)
qed

lemma role_column_None: "role_column pat cs = None \<longleftrightarrow> \<not> list_ex (\<lambda>c. sublist pat (lower c)) cs"
proof (cases "find (\<lambda>c. sublist pat (lower c)) cs")
  case None
  then have "role_column pat cs = None" by (simp add: role_column_def)
  moreover from None have "\<not> list_ex (\<lambda>c. sublist pat (lower c)) cs"
    by (auto simp: find_None_iff list_ex_iff)
  ultimately show ?thesis by simp
next
  case (Some c)
  with find_Some_mem [OF Some] show ?thesis by (auto simp: role_column_def list_ex_iff)
qed

lemma role_column_distinct:
  assumes "distinct (map lower cs)"
  shows "role_column pat cs = find (\<lambda>c. sublist pat (lower c)) cs"
proof (cases "find (\<lambda>c. sublist pat (lower c)) cs")
  case None
  then show ?thesis by (simp add: role_column_def)
next
  case (Some c)
  then have "c \<in> set cs" using find_Some_mem by fastforce
  with assms have "filter (\<lambda>x. lower x = lower c) cs = [c]"
  proof (induction cs)
    case Nil
    then show ?case by simp
  next
    case (Cons a cs)
    then show ?case by (auto simp: filter_empty_conv image_iff)
  qed
  with Some show ?thesis by (simp add: role_column_def)
qed

subsection \<open>The effect of one chunk\<close>

lemma filter_zip_map: "map fst (filter snd (zip rs (map P rs))) = filter P rs"
  by (induction rs) auto

lemma map2_or_map: "map2 (\<or>) (map P rs) (map Q rs) = map (\<lambda>r. P r \<or> Q r) rs"
  by (induction rs) auto

lemma getitem_series_eq:
  "c \<in> set (columns chunk) \<Longrightarrow>
   (case getitem chunk c of Inl e \<Rightarrow> Inl e | Inr s \<Rightarrow> Inr (mask_or m (series_eq s v))) =
   Inr (mask_or m (map (\<lambda>r. r ! index_of c (columns chunk) = Some v) (rows chunk)))"
  by (simp add: getitem_def series_eq_def comp_def)

lemma partition_rows_eq:
  assumes sc: "\<And>c. sc = Some c \<Longrightarrow> c \<in> set (columns chunk) \<and> c \<noteq> []"
    and dc: "\<And>c. dc = Some c \<Longrightarrow> c \<in> set (columns chunk) \<and> c \<noteq> []"
    and some: "sc \<noteq> None \<or> dc \<noteq> None"
  shows "partition_rows chunk sc dc =
     Inr (chunk\<lparr>rows := filter (\<lambda>r. sentinel_in (columns chunk) sc r \<or> sentinel_in (columns chunk) dc r) (rows chunk)\<rparr>,
          chunk\<lparr>rows := filter (\<lambda>r. \<not> (sentinel_in (columns chunk) sc r \<or> sentinel_in (columns chunk) dc r)) (rows chunk)\<rparr>)"
proof (cases sc)
  case None
  with some obtain d where d: "dc = Some d" by auto
  with dc have "d \<in> set (columns chunk)" "d \<noteq> []" by auto
  with None d show ?thesis
    by (simp add: partition_rows_def getitem_series_eq sentinel_in_def filter_zip_map comp_def)
next
  case (Some s)
  with sc have s: "s \<in> set (columns chunk)" "s \<noteq> []" by auto
  show ?thesis
  proof (cases dc)
    case None
    with Some s show ?thesis
      by (simp add: partition_rows_def getitem_series_eq sentinel_in_def filter_zip_map comp_def)
  next
    case (Some d)
    with dc have "d \<in> set (columns chunk)" "d \<noteq> []" by auto
    with \<open>sc = Some s\<close> Some s show ?thesis
      by (simp add: partition_rows_def getitem_series_eq sentinel_in_def filter_zip_map
          map2_or_map comp_def)
  qed
qed

lemma detected_valid:
  "fst (state_district_columns cs) = Some c \<Longrightarrow> c \<in> set cs \<and> c \<noteq> []"
  "snd (state_district_columns cs) = Some c \<Longrightarrow> c \<in> set cs \<and> c \<noteq> []"
  by (simp_all add: state_district_columns_eq role_column_mem)

lemma truthy_detected:
  "truthy (fst (state_district_columns cs)) \<longleftrightarrow> fst (state_district_columns cs) \<noteq> None"
  "truthy (snd (state_district_columns cs)) \<longleftrightarrow> snd (state_district_columns cs) \<noteq> None"
  using detected_valid [of cs]
  by (cases "fst (state_district_columns cs)"; cases "snd (state_district_columns cs)"; simp)+

lemma removed_row_fun:
  "removed_row cs =
     (\<lambda>r. sentinel_in cs (fst (state_district_columns cs)) r
        \<or> sentinel_in cs (snd (state_district_columns cs)) r)"
  by (rule ext) (simp add: removed_row_def)

lemma partition_detected:
  assumes "fst (state_district_columns (columns chunk)) \<noteq> None
           \<or> snd (state_district_columns (columns chunk)) \<noteq> None"
  shows "partition_rows chunk (fst (state_district_columns (columns chunk)))
           (snd (state_district_columns (columns chunk))) =
         Inr (chunk\<lparr>rows := filter (removed_row (columns chunk)) (rows chunk)\<rparr>,
              chunk\<lparr>rows := filter (\<lambda>r. \<not> removed_row (columns chunk) r) (rows chunk)\<rparr>)"
proof -
  have "partition_rows chunk (fst (state_district_columns (columns chunk)))
           (snd (state_district_columns (columns chunk))) =
     Inr (chunk\<lparr>rows := filter (\<lambda>r. sentinel_in (columns chunk) (fst (state_district_columns (columns chunk))) r
              \<or> sentinel_in (columns chunk) (snd (state_district_columns (columns chunk))) r) (rows chunk)\<rparr>,
          chunk\<lparr>rows := filter (\<lambda>r. \<not> (sentinel_in (columns chunk) (fst (state_district_columns (columns chunk))) r
              \<or> sentinel_in (columns chunk) (snd (state_district_columns (columns chunk))) r)) (rows chunk)\<rparr>)"
    by (rule partition_rows_eq) (rule detected_valid, assumption, rule detected_valid, assumption, rule assms)
  then show ?thesis by (simp add: removed_row_fun)
qed

lemma removed_row_no_columns:
  "fst (state_district_columns cs) = None \<Longrightarrow> snd (state_district_columns cs) = None \<Longrightarrow>
   \<not> removed_row cs r"
  by (simp add: removed_row_def sentinel_in_def)

lemma to_csv_append:
  "to_csv sep h \<lparr>columns = cs, rows = xs\<rparr> @ to_csv sep False \<lparr>columns = cs, rows = ys\<rparr> =
   to_csv sep h \<lparr>columns = cs, rows = xs @ ys\<rparr>"
  by (simp add: to_csv_def)

lemma wrote_wrote: "wrote p b m2 (wrote p a m1 w) = wrote p (a @ b) (m1 @ m2) w"
  by (simp add: wrote_def existing_def)

lemma process_chunk_effect:
  "process_chunk p chunk (l, w) =
     Inr (l\<lparr>first_chunk := False,
            removed_any := removed_any l \<or> filter (removed_row (columns chunk)) (rows chunk) \<noteq> [],
            log_lines := log_lines l @
              (if filter (removed_row (columns chunk)) (rows chunk) = [] then []
               else log_record p (columns chunk) (filter (removed_row (columns chunk)) (rows chunk)))\<rparr>,
          wrote p
            (to_csv COMMA (first_chunk l)
               \<lparr>columns = columns chunk,
                rows = filter (\<lambda>r. \<not> removed_row (columns chunk) r) (rows chunk)\<rparr>)
            (chunk_messages p chunk (first_chunk l)) w)"
proof (cases "fst (state_district_columns (columns chunk)) = None
              \<and> snd (state_district_columns (columns chunk)) = None")
  case True
  then have "\<forall>r. \<not> removed_row (columns chunk) r"
    by (simp add: removed_row_no_columns)
  with True show ?thesis
    by (cases "state_district_columns (columns chunk)")
      (auto simp: process_chunk_def append_file_def print_def to_csv_def chunk_messages_def
        wrote_def)
next
  case False
  then have some: "fst (state_district_columns (columns chunk)) \<noteq> None
           \<or> snd (state_district_columns (columns chunk)) \<noteq> None" by auto
  then have "columns chunk \<noteq> []"
    using detected_valid [of "columns chunk"] by fastforce
  with False partition_detected [OF some] truthy_detected [of "columns chunk"] show ?thesis
    by (cases "state_district_columns (columns chunk)")
      (auto simp: process_chunk_def append_file_def print_def to_csv_def df_empty_def
        log_record_def chunk_messages_def wrote_def)
qed

subsection \<open>The effect of the loop and of a file\<close>

lemma concat_removed_blocks: "concat (removed_blocks cs bs) = filter (removed_row cs) (concat bs)"
  by (induction bs) (auto simp: removed_blocks_def)

lemma removed_blocks_Nil_iff:
  "removed_blocks cs bs = [] \<longleftrightarrow> filter (removed_row cs) (concat bs) = []"
  by (induction bs) (auto simp: removed_blocks_def)

lemma removed_blocks_Cons:
  "removed_blocks cs (b # bs) =
     (if filter (removed_row cs) b = [] then removed_blocks cs bs
      else filter (removed_row cs) b # removed_blocks cs bs)"
  by (simp add: removed_blocks_def)

lemma removed_blocks_Nil [simp]: "removed_blocks cs [] = []"
  by (simp add: removed_blocks_def)

lemma concat_log_records_Nil_iff:
  "concat (map (log_record p cs) Rs) = [] \<longleftrightarrow> Rs = []"
  by (cases Rs) (simp_all add: log_record_def)

lemma process_chunks_effect:
  assumes "\<forall>c\<in>set (ch # chs). columns c = cs"
  shows "process_chunks p (ch # chs) (l, w) =
     Inr (l\<lparr>first_chunk := False,
            removed_any := removed_any l \<or> removed_blocks cs (map rows (ch # chs)) \<noteq> [],
            log_lines := log_lines l
              @ concat (map (log_record p cs) (removed_blocks cs (map rows (ch # chs))))\<rparr>,
          wrote p
            (to_csv COMMA (first_chunk l)
               \<lparr>columns = cs,
                rows = filter (\<lambda>r. \<not> removed_row cs r) (concat (map rows (ch # chs)))\<rparr>)
            (chunks_messages p (ch # chs) (first_chunk l)) w)"
  using assms
proof (induction chs arbitrary: ch l w)
  case Nil
  then show ?case
    by (simp add: process_chunk_effect removed_blocks_Cons)
next
  case (Cons c chs)
  from Cons.prems have cols: "columns ch = cs" and rest: "\<forall>x\<in>set (c # chs). columns x = cs"
    by simp_all
  show ?case
    by (subst process_chunks.simps, simp only: process_chunk_effect sum.case Cons.IH [OF rest])
      (simp add: cols wrote_wrote to_csv_append removed_blocks_Cons)
qed

lemma process_file_on_effect:
  assumes "\<forall>c\<in>set (ch # chs). columns c = cs"
  shows "process_file_on p (ch # chs) w =
     Inr ((wrote p
            (to_csv COMMA True
               \<lparr>columns = cs,
                rows = filter (\<lambda>r. \<not> removed_row cs r) (concat (map rows (ch # chs)))\<rparr>)
            (file_messages p cs (ch # chs)) w)
          \<lparr>cleaned_dirs := cleaned_dirs w \<union> set (prefixes (butlast p)),
           log_file :=
             (if removed_blocks cs (map rows (ch # chs)) = [] then log_file w
              else Some (existing (log_file w)
                     @ concat (map (log_record p cs) (removed_blocks cs (map rows (ch # chs))))))\<rparr>)"
proof (cases "removed_blocks cs (map rows (ch # chs)) = []")
  case True
  then show ?thesis
    unfolding process_file_on_def Let_def process_chunks_effect [OF assms]
    by (simp add: wrote_def print_def file_messages_def)
next
  case False
  then have "concat (map (log_record p cs) (removed_blocks cs (map rows (ch # chs)))) \<noteq> []"
    by (simp only: concat_log_records_Nil_iff not_False_eq_True)
  with False show ?thesis
    unfolding process_file_on_def Let_def process_chunks_effect [OF assms]
    by (simp add: wrote_def print_def file_messages_def write_log_def)
qed

lemma chunks_of_Nil [simp]: "chunks_of n [] = []"
  by (simp add: chunks_of.simps)

lemma chunks_of_Cons:
  "0 < n \<Longrightarrow> xs \<noteq> [] \<Longrightarrow> chunks_of n xs = take n xs # chunks_of n (drop n xs)"
  by (subst chunks_of.simps) simp

lemma concat_chunks_of: "0 < n \<Longrightarrow> concat (chunks_of n xs) = xs"
proof (induction n xs rule: chunks_of.induct)
  case (1 n xs)
  then show ?case by (cases "xs = []") (simp_all add: chunks_of_Cons)
qed

lemma chunks_of_single: "0 < n \<Longrightarrow> xs \<noteq> [] \<Longrightarrow> length xs \<le> n \<Longrightarrow> chunks_of n xs = [xs]"
  by (simp add: chunks_of_Cons)

lemma chunks_of_append:
  "0 < n \<Longrightarrow> length xs = n \<Longrightarrow> chunks_of n (xs @ ys) = xs # chunks_of n ys"
  by (cases "xs = []") (simp_all add: chunks_of_Cons)

lemma read_csv_Cons:
  "0 < n \<Longrightarrow> \<exists>ch chs. read_csv n csv = ch # chs"
  by (cases "rows csv = []") (simp_all add: read_csv_def chunks_of_Cons)

lemma read_csv_columns: "\<forall>c\<in>set (read_csv n csv). columns c = columns csv"
  by (simp add: read_csv_def)

lemma concat_rows_read_csv: "0 < n \<Longrightarrow> concat (map rows (read_csv n csv)) = rows csv"
  by (simp add: read_csv_def comp_def concat_chunks_of)

lemma rows_read_csv:
  "removed_blocks cs (map rows (read_csv n csv)) = removed_blocks cs (chunks_of n (rows csv))"
  by (simp add: read_csv_def comp_def removed_blocks_Cons)

lemma process_file_on_read_csv:
  assumes "0 < n"
  shows "process_file_on p (read_csv n csv) w =
     Inr ((wrote p
            (to_csv COMMA True
               \<lparr>columns = columns csv,
                rows = filter (\<lambda>r. \<not> removed_row (columns csv) r) (rows csv)\<rparr>)
            (file_messages p (columns csv) (read_csv n csv)) w)
          \<lparr>cleaned_dirs := cleaned_dirs w \<union> set (prefixes (butlast p)),
           log_file :=
             (if removed_blocks (columns csv) (chunks_of n (rows csv)) = [] then log_file w
              else Some (existing (log_file w)
                     @ concat (map (log_record p (columns csv))
                         (removed_blocks (columns csv) (chunks_of n (rows csv))))))\<rparr>)"
proof -
  from read_csv_Cons [OF assms] obtain ch chs where eq: "read_csv n csv = ch # chs" by blast
  have cols: "\<forall>c\<in>set (ch # chs). columns c = columns csv"
    using read_csv_columns [of n csv] by (simp add: eq)
  show ?thesis
    using process_file_on_effect [OF cols, of p w]
    unfolding eq [symmetric] concat_rows_read_csv [OF assms] rows_read_csv .
qed

lemma chunksize_pos: "0 < chunksize"
  by (simp add: chunksize_def)

lemmas process_file_effect =
  process_file_on_read_csv [OF chunksize_pos, folded process_file_def]

lemma concat_removed_blocks_chunks:
  "0 < n \<Longrightarrow> concat (removed_blocks cs (chunks_of n rs)) = filter (removed_row cs) rs"
  by (simp add: concat_removed_blocks concat_chunks_of)

lemma process_file_on_single:
  "process_file_on p [csv] w =
     Inr ((wrote p
            (to_csv COMMA True
               \<lparr>columns = columns csv,
                rows = filter (\<lambda>r. \<not> removed_row (columns csv) r) (rows csv)\<rparr>)
            (file_messages p (columns csv) [csv]) w)
          \<lparr>cleaned_dirs := cleaned_dirs w \<union> set (prefixes (butlast p)),
           log_file :=
             (if removed_blocks (columns csv) [rows csv] = [] then log_file w
              else Some (existing (log_file w)
                     @ concat (map (log_record p (columns csv))
                         (removed_blocks (columns csv) [rows csv]))))\<rparr>)"
  using process_file_on_effect [of csv "[]" "columns csv" p w] by simp

lemma main_one_file:
  "data_dir w = Some [(p, csv)] \<Longrightarrow>
   cleaned_files (result_world (main w))
     = (cleaned_files w)(p \<mapsto> existing (cleaned_files w p)
          @ to_csv COMMA True
              \<lparr>columns = columns csv,
               rows = filter (\<lambda>r. \<not> removed_row (columns csv) r) (rows csv)\<rparr>)
   \<and> data_dir (result_world (main w)) = data_dir w"
  by (simp add: main_def Let_def print_def process_file_effect wrote_def result_world_def
      split: option.splits)

subsection \<open>The sample inputs evaluated\<close>

lemma detect_scenario:
  "state_district_columns [''StateCode'', ''District_Name'']
     = (Some ''StateCode'', Some ''District_Name'')"
  by (simp add: state_district_columns_def lower_cols_of_def first_match_def lower_def
      lower_char_def sublist_code)

lemma detect_state: "state_district_columns [''state''] = (Some ''state'', None)"
  by (simp add: state_district_columns_def lower_cols_of_def first_match_def lower_def
      lower_char_def sublist_code)

lemma detect_none: "state_district_columns [''code''] = (None, None)"
  by (simp add: state_district_columns_def lower_cols_of_def first_match_def lower_def
      lower_char_def sublist_code)

lemma removed_row_scenario:
  "removed_row [''StateCode'', ''District_Name''] r
     \<longleftrightarrow> r ! 0 = Some ''100000'' \<or> r ! Suc 0 = Some ''100000''"
  by (simp add: removed_row_def sentinel_in_def detect_scenario)

lemma removed_row_state: "removed_row [''state''] r \<longleftrightarrow> r ! 0 = Some ''100000''"
  by (simp add: removed_row_def sentinel_in_def detect_state)

lemma chunks_of_one: "chunks_of chunksize [a] = [[a]]"
  by (simp add: chunks_of_single chunksize_def)

lemma chunks_of_three: "chunks_of chunksize [a, b, c] = [[a, b, c]]"
  by (simp add: chunks_of_single chunksize_def)

lemma chunks_of_big:
  "chunks_of chunksize (rows big_csv)
     = [[Some ''100000''] # replicate 99999 [Some ''1''], [[Some ''100000'']]]"
proof -
  have "chunks_of chunksize (([Some ''100000''] # replicate 99999 [Some ''1'']) @ [[Some ''100000'']])
      = ([Some ''100000''] # replicate 99999 [Some ''1'']) # chunks_of chunksize [[Some ''100000'']]"
    by (rule chunks_of_append) (simp_all add: chunksize_def)
  then show ?thesis
    by (simp add: big_csv_def chunks_of_one)
qed

lemma removed_blocks_big:
  "removed_blocks [''state''] (chunks_of chunksize (rows big_csv))
     = [[[Some ''100000'']], [[Some ''100000'']]]"
  by (simp add: chunks_of_big removed_blocks_def removed_row_state)

section \<open>The properties\<close>

text \<open>
  C1. The processor returns without raising. The output file receives the header and then
  exactly the rows that are not removed, the audit log receives exactly the removed rows
  (chunk by chunk), and a row is removed if and only if a state-like column was detected
  and the row's value in it is the string 100000, or a district-like column was detected
  and the row's value in it is the string 100000. The test is equality of strings. When
  neither role column is detected every row is written and the log is left alone.
\<close>

theorem C1_kept_iff_not_sentinel:
  "\<exists>w'. process_file p csv w = Inr w'
     \<and> cleaned_files w' p =
         Some (existing (cleaned_files w p)
               @ to_csv COMMA True
                   \<lparr>columns = columns csv,
                    rows = filter (\<lambda>r. \<not> removed_row (columns csv) r) (rows csv)\<rparr>)
     \<and> log_file w' =
         (if removed_blocks (columns csv) (chunks_of chunksize (rows csv)) = [] then log_file w
          else Some (existing (log_file w)
                 @ concat (map (log_record p (columns csv))
                     (removed_blocks (columns csv) (chunks_of chunksize (rows csv))))))
     \<and> concat (removed_blocks (columns csv) (chunks_of chunksize (rows csv))) =
         filter (removed_row (columns csv)) (rows csv)
     \<and> (\<forall>r. removed_row (columns csv) r \<longleftrightarrow>
           (\<exists>c. fst (state_district_columns (columns csv)) = Some c
                \<and> r ! index_of c (columns csv) = Some ''100000'')
           \<or> (\<exists>c. snd (state_district_columns (columns csv)) = Some c
                \<and> r ! index_of c (columns csv) = Some ''100000''))
     \<and> (state_district_columns (columns csv) = (None, None) \<longrightarrow>
           cleaned_files w' p =
             Some (existing (cleaned_files w p) @ to_csv COMMA True csv)
           \<and> log_file w' = log_file w)"
proof -
  have unfold: "\<forall>r. removed_row (columns csv) r \<longleftrightarrow>
           (\<exists>c. fst (state_district_columns (columns csv)) = Some c
                \<and> r ! index_of c (columns csv) = Some ''100000'')
           \<or> (\<exists>c. snd (state_district_columns (columns csv)) = Some c
                \<and> r ! index_of c (columns csv) = Some ''100000'')"
    by (auto simp: removed_row_def sentinel_in_def split: option.splits)
  have none: "filter (\<lambda>r. \<not> removed_row (columns csv) r) (rows csv) = rows csv
          \<and> removed_blocks (columns csv) (chunks_of chunksize (rows csv)) = []"
    if "state_district_columns (columns csv) = (None, None)"
    using that by (simp add: removed_row_fun sentinel_in_def removed_blocks_Nil_iff)
  show ?thesis
    unfolding process_file_effect
    apply (intro exI conjI)
         apply (rule refl)
        apply (simp add: wrote_def)
       apply (simp add: wrote_def)
      apply (simp add: concat_removed_blocks_chunks chunksize_pos)
     apply (rule unfold)
    apply (use none in \<open>simp add: wrote_def to_csv_def\<close>)
    done
qed

text \<open>
  On a file with both role columns the rows with 100000 in either are dropped, while a
  value with a leading blank and the value 100000.0 stay; on a file without role columns
  the row with 100000 stays.
\<close>

theorem C1_witness:
  "cleaned_files
     (result_world
        (process_file [''f.csv'']
           \<lparr>columns = [''StateCode'', ''District_Name''],
            rows = [[Some ''100000'', Some ''X''], [Some ''12'', Some ''100000''],
                    [Some ''5'', Some ''Y''], [Some '' 100000'', Some ''100000.0'']]\<rparr>
           fresh_world)) [''f.csv'']
   = Some [Fields COMMA [''StateCode'', ''District_Name''], Fields COMMA [''5'', ''Y''],
           Fields COMMA ['' 100000'', ''100000.0'']]
   \<and> cleaned_files
       (result_world
          (process_file [''g.csv''] \<lparr>columns = [''code''], rows = [[Some ''100000'']]\<rparr> fresh_world))
       [''g.csv'']
     = Some [Fields COMMA [''code''], Fields COMMA [''100000'']]"
  using C1_kept_iff_not_sentinel [of "[''f.csv'']"
      "\<lparr>columns = [''StateCode'', ''District_Name''],
            rows = [[Some ''100000'', Some ''X''], [Some ''12'', Some ''100000''],
                    [Some ''5'', Some ''Y''], [Some '' 100000'', Some ''100000.0'']]\<rparr>" fresh_world]
    C1_kept_iff_not_sentinel [of "[''g.csv'']"
      "\<lparr>columns = [''code''], rows = [[Some ''100000'']]\<rparr>" fresh_world]
  by (auto simp: result_world_def fresh_world_def existing_def to_csv_def row_line_def na_rep_def
      removed_row_scenario detect_none)

text \<open>
  C2. The rows written to the output file together with the rows recorded in the audit
  log are as many as the rows of the input file.
\<close>

theorem C2_counts_add_up:
  "\<exists>w'. process_file p csv w = Inr w'
     \<and> (let kept = filter (\<lambda>r. \<not> removed_row (columns csv) r) (rows csv);
             logged = removed_blocks (columns csv) (chunks_of chunksize (rows csv))
         in cleaned_files w' p =
              Some (existing (cleaned_files w p)
                    @ Fields COMMA (columns csv) # map (row_line COMMA) kept)
          \<and> log_file w' =
              (if logged = [] then log_file w
               else Some (existing (log_file w)
                      @ concat (map (log_record p (columns csv)) logged)))
          \<and> length kept + length (concat logged) = length (rows csv))"
proof -
  have "length (filter (\<lambda>r. \<not> removed_row (columns csv) r) (rows csv))
          + length (filter (removed_row (columns csv)) (rows csv)) = length (rows csv)"
    using sum_length_filter_compl [of "removed_row (columns csv)" "rows csv"] by simp
  then show ?thesis
    unfolding process_file_effect
    by (simp add: wrote_def to_csv_def Let_def concat_removed_blocks_chunks chunksize_pos)
qed

theorem C2_witness:
  "cleaned_files (result_world (process_file [''f.csv''] scenario_csv fresh_world)) [''f.csv'']
     = Some [Fields COMMA [''StateCode'', ''District_Name''], Fields COMMA [''5'', ''Y'']]
   \<and> log_file (result_world (process_file [''f.csv''] scenario_csv fresh_world))
     = Some [Text ''FILE: f.csv'', Fields TAB [''StateCode'', ''District_Name''],
             Fields TAB [''100000'', ''X''], Fields TAB [''12'', ''100000''], Text []]
   \<and> length [[Some ''5'', Some ''Y'']]
       + length [[Some ''100000'', Some ''X''], [Some ''12'', Some ''100000'']]
     = length (rows scenario_csv)"
  using C2_counts_add_up [of "[''f.csv'']" scenario_csv fresh_world]
  by (auto simp: Let_def result_world_def scenario_csv_def fresh_world_def existing_def
      chunks_of_three removed_blocks_def removed_row_scenario log_record_def row_line_def
      na_rep_def)

text \<open>
  C3. The rows written to the output file are a subsequence of the input rows, in the
  original order, and so are the rows of the file recorded in the audit log, read in the
  order in which they are logged.
\<close>

theorem C3_order_preserved:
  "\<exists>w'. process_file p csv w = Inr w'
     \<and> (let kept = filter (\<lambda>r. \<not> removed_row (columns csv) r) (rows csv);
             logged = removed_blocks (columns csv) (chunks_of chunksize (rows csv))
         in cleaned_files w' p =
              Some (existing (cleaned_files w p)
                    @ Fields COMMA (columns csv) # map (row_line COMMA) kept)
          \<and> log_file w' =
              (if logged = [] then log_file w
               else Some (existing (log_file w)
                      @ concat (map (log_record p (columns csv)) logged)))
          \<and> subseq kept (rows csv)
          \<and> subseq (concat logged) (rows csv))"
  unfolding process_file_effect
  by (simp add: wrote_def to_csv_def Let_def concat_removed_blocks_chunks chunksize_pos)

theorem C3_witness:
  "subseq [[Some ''5'', Some ''Y'']] (rows scenario_csv)
   \<and> subseq [[Some ''100000'', Some ''X''], [Some ''12'', Some ''100000'']] (rows scenario_csv)"
  using C3_order_preserved [of "[''f.csv'']" scenario_csv fresh_world]
  by (auto simp: Let_def scenario_csv_def chunks_of_three removed_blocks_def
      removed_row_scenario)

text \<open>
  C4. Reading the file in chunks of 100,000 rows and reading it as one single chunk
  leave the same output files, and the removed rows that the two runs record in the
  audit log form the same sequence.
\<close>

theorem C4_chunking_has_no_effect:
  "\<exists>w1 w2. process_file p csv w = Inr w1 \<and> process_file_on p [csv] w = Inr w2
     \<and> cleaned_files w1 = cleaned_files w2
     \<and> (let chunked = removed_blocks (columns csv) (chunks_of chunksize (rows csv));
             whole = removed_blocks (columns csv) [rows csv]
         in log_file w1 =
              (if chunked = [] then log_file w
               else Some (existing (log_file w)
                      @ concat (map (log_record p (columns csv)) chunked)))
          \<and> log_file w2 =
              (if whole = [] then log_file w
               else Some (existing (log_file w)
                      @ concat (map (log_record p (columns csv)) whole)))
          \<and> concat chunked = concat whole)"
  unfolding process_file_effect process_file_on_single
  by (simp add: wrote_def Let_def chunksize_pos concat_removed_blocks concat_chunks_of)

theorem C4_witness:
  "cleaned_files (result_world (process_file [''big.csv''] big_csv fresh_world))
     = cleaned_files (result_world (process_file_on [''big.csv''] [big_csv] fresh_world))
   \<and> concat [[[Some ''100000'']], [[Some ''100000'']]]
     = concat (removed_blocks [''state'']
         [[Some ''100000''] # replicate 99999 [Some ''1''] @ [[Some ''100000'']]])"
proof -
  have cols: "columns big_csv = [''state'']" by (simp add: big_csv_def)
  have rs: "rows big_csv = [Some ''100000''] # replicate 99999 [Some ''1''] @ [[Some ''100000'']]"
    by (simp add: big_csv_def)
  from C4_chunking_has_no_effect [of "[''big.csv'']" big_csv fresh_world]
  show ?thesis
    unfolding cols removed_blocks_big Let_def
    by (auto simp: result_world_def rs)
qed

text \<open>
  C5. For every chunk of the file in which some row is removed the audit log receives one
  record: the line \<open>FILE:\<close> with the relative path, the header separated by tabs, the
  removed rows of that chunk separated by tabs, and an empty line. A file with removed
  rows and at most 100,000 rows therefore has exactly one record, holding all its
  removed rows.
\<close>

theorem C5_one_record_per_chunk:
  "\<exists>w'. process_file p csv w = Inr w'
     \<and> (let logged = removed_blocks (columns csv) (chunks_of chunksize (rows csv))
         in log_file w' =
              (if logged = [] then log_file w
               else Some (existing (log_file w)
                      @ concat (map (\<lambda>R. [Text (''FILE: '' @ path_str p), Fields TAB (columns csv)]
                                          @ map (row_line TAB) R @ [Text []]) logged)))
          \<and> logged = filter (\<lambda>R. R \<noteq> [])
                (map (filter (removed_row (columns csv))) (chunks_of chunksize (rows csv)))
          \<and> (length (rows csv) \<le> chunksize
               \<and> filter (removed_row (columns csv)) (rows csv) \<noteq> [] \<longrightarrow>
              logged = [filter (removed_row (columns csv)) (rows csv)]))"
proof -
  have one: "removed_blocks (columns csv) (chunks_of chunksize (rows csv))
               = [filter (removed_row (columns csv)) (rows csv)]"
    if "length (rows csv) \<le> chunksize" "filter (removed_row (columns csv)) (rows csv) \<noteq> []"
  proof -
    from that(2) have "rows csv \<noteq> []" by auto
    with that(1) have "chunks_of chunksize (rows csv) = [rows csv]"
      by (simp add: chunks_of_single chunksize_pos)
    with that(2) show ?thesis by (simp add: removed_blocks_Cons)
  qed
  have rec: "log_record p (columns csv) =
      (\<lambda>R. [Text (''FILE: '' @ path_str p), Fields TAB (columns csv)]
                                          @ map (row_line TAB) R @ [Text []])"
    by (rule ext) (simp add: log_record_def)
  show ?thesis
    unfolding process_file_effect Let_def rec
    apply (intro exI conjI)
       apply (rule refl)
      apply (simp add: wrote_def)
     apply (simp add: removed_blocks_def)
    apply (use one in blast)
    done
qed

theorem C5_witness:
  "log_file (result_world (process_file [''f.csv''] scenario_csv fresh_world))
     = Some [Text ''FILE: f.csv'', Fields TAB [''StateCode'', ''District_Name''],
             Fields TAB [''100000'', ''X''], Fields TAB [''12'', ''100000''], Text []]"
proof -
  have small: "length (rows scenario_csv) \<le> chunksize
      \<and> filter (removed_row (columns scenario_csv)) (rows scenario_csv) \<noteq> []"
    by (simp add: scenario_csv_def chunksize_def removed_row_scenario)
  from C5_one_record_per_chunk [of "[''f.csv'']" scenario_csv fresh_world] small
  show ?thesis
    by (auto simp: Let_def result_world_def scenario_csv_def fresh_world_def existing_def
        chunks_of_three removed_blocks_def removed_row_scenario row_line_def na_rep_def)
qed

text \<open>
  A file of 100,001 rows whose first and last rows are removed gets two records in the
  log, not one record with both rows.
\<close>

theorem C5_counterexample:
  "log_file (result_world (process_file [''big.csv''] big_csv fresh_world))
     = Some [Text ''FILE: big.csv'', Fields TAB [''state''], Fields TAB [''100000''], Text [],
             Text ''FILE: big.csv'', Fields TAB [''state''], Fields TAB [''100000''], Text []]
   \<and> log_file (result_world (process_file [''big.csv''] big_csv fresh_world))
     \<noteq> Some [Text ''FILE: big.csv'', Fields TAB [''state''], Fields TAB [''100000''],
              Fields TAB [''100000''], Text []]"
proof -
  have cols: "columns big_csv = [''state'']" by (simp add: big_csv_def)
  show ?thesis
    unfolding process_file_effect cols removed_blocks_big
    by (simp add: result_world_def fresh_world_def existing_def log_record_def row_line_def
        na_rep_def)
qed

text \<open>
  C6. The output file is opened for appending and nothing empties it before the run, so
  content that is already at the output path stays in front of what the run writes: a
  first run over a one-row file leaves the header and the row in the output file, and a
  second run over the unchanged input leaves both twice.
\<close>

theorem C6_rerun_appends_to_old_output:
  "cleaned_files (result_world (main first_run_world)) [''a.csv'']
     = Some [Fields COMMA [''state''], Fields COMMA [''7'']]
   \<and> cleaned_files (result_world (main (result_world (main first_run_world)))) [''a.csv'']
     = Some [Fields COMMA [''state''], Fields COMMA [''7''],
             Fields COMMA [''state''], Fields COMMA [''7'']]"
proof -
  have d: "data_dir first_run_world
      = Some [([''a.csv''], \<lparr>columns = [''state''], rows = [[Some ''7'']]\<rparr>)]"
    by (simp add: first_run_world_def)
  note one = main_one_file [OF d]
  from one have d2: "data_dir (result_world (main first_run_world))
      = Some [([''a.csv''], \<lparr>columns = [''state''], rows = [[Some ''7'']]\<rparr>)]"
    by (simp add: d)
  note two = main_one_file [OF d2]
  show ?thesis
    unfolding two [THEN conjunct1] one [THEN conjunct1]
    by (simp add: first_run_world_def existing_def to_csv_def row_line_def na_rep_def
        removed_row_state)
qed

text \<open>
  C7. The detector returns, for the state role, the first header in the order of the list
  whose lower-case form contains \<open>state\<close>, in the spelling of the last header that has the
  same lower-case form, and likewise for the district role with \<open>district\<close>. The two
  roles are found independently of each other, so one header may be returned for both,
  and a role is absent exactly when no header matches it.
\<close>

theorem C7_first_match_last_spelling:
  "state_district_columns cs = (role_column ''state'' cs, role_column ''district'' cs)
   \<and> (fst (state_district_columns cs) = None
        \<longleftrightarrow> \<not> list_ex (\<lambda>c. sublist ''state'' (lower c)) cs)
   \<and> (snd (state_district_columns cs) = None
        \<longleftrightarrow> \<not> list_ex (\<lambda>c. sublist ''district'' (lower c)) cs)"
  by (simp add: state_district_columns_eq role_column_None)

theorem C7_witness:
  "state_district_columns [''ID'', ''State_District'', ''STATE_DISTRICT'', ''state'']
     = (Some ''STATE_DISTRICT'', Some ''STATE_DISTRICT'')
   \<and> snd (state_district_columns [''ID'', ''State'', ''Value'']) = None"
  using C7_first_match_last_spelling [of "[''ID'', ''State_District'', ''STATE_DISTRICT'', ''state'']"]
    C7_first_match_last_spelling [of "[''ID'', ''State'', ''Value'']"]
  by (simp add: role_column_def lower_def lower_char_def sublist_code)

text \<open>
  With two headers that match \<open>state\<close> the detector returns the first of them, not the
  one that matched most recently.
\<close>

theorem C7_counterexample:
  "state_district_columns [''StateCode'', ''state_name''] = (Some ''StateCode'', None)
   \<and> (last_match ''state'' [''StateCode'', ''state_name''],
       last_match ''district'' [''StateCode'', ''state_name'']) = (Some ''state_name'', None)
   \<and> state_district_columns [''StateCode'', ''state_name'']
       \<noteq> (last_match ''state'' [''StateCode'', ''state_name''],
          last_match ''district'' [''StateCode'', ''state_name''])"
  by (simp add: state_district_columns_def lower_cols_of_def first_match_def lower_def
      lower_char_def sublist_code last_match_def)

text \<open>
  C8. When the data directory does not exist the run raises \<^verbatim>\<open>FileNotFoundError\<close> and
  the world is as it was: the output root is not created, the audit log is not deleted
  and no output file is written.
\<close>

theorem C8_missing_data_dir_aborts:
  "data_dir w = None \<Longrightarrow>
   main w = Inl (FileNotFoundError (''Data directory not found: '' @ DATA_DIR), w)"
  by (simp add: main_def)

theorem C8_witness:
  "main \<lparr>data_dir = None, cleaned_dirs = {}, cleaned_files = [[''a.csv''] \<mapsto> [Text ''kept'']],
         log_file = Some [Text ''FILE: a.csv''], stdout = []\<rparr>
   = Inl (FileNotFoundError ''Data directory not found: data'',
          \<lparr>data_dir = None, cleaned_dirs = {}, cleaned_files = [[''a.csv''] \<mapsto> [Text ''kept'']],
           log_file = Some [Text ''FILE: a.csv''], stdout = []\<rparr>)"
  using C8_missing_data_dir_aborts
    [of "\<lparr>data_dir = None, cleaned_dirs = {}, cleaned_files = [[''a.csv''] \<mapsto> [Text ''kept'']],
         log_file = Some [Text ''FILE: a.csv''], stdout = []\<rparr>"]
  by (simp add: DATA_DIR_def)

text \<open>
  C9. When no two headers have the same lower-case form the detector returns the first
  header whose lower-case form contains \<open>state\<close>, respectively \<open>district\<close>. In general
  the lookup structure maps a lower-case form to the last header that has it.
\<close>

theorem C9_first_header_when_distinct:
  "(distinct (map lower cs) \<longrightarrow>
      state_district_columns cs =
        (find (\<lambda>c. sublist ''state'' (lower c)) cs, find (\<lambda>c. sublist ''district'' (lower c)) cs))
   \<and> map_of (lower_cols_of cs) k =
       (case filter (\<lambda>c. lower c = k) cs of [] \<Rightarrow> None | x # xs \<Rightarrow> Some (last (x # xs)))"
  by (simp add: state_district_columns_eq role_column_distinct map_of_lower_cols)

theorem C9_witness:
  "distinct (map lower [''ID'', ''StateCode'', ''state_name'', ''District_Name''])
   \<and> state_district_columns [''ID'', ''StateCode'', ''state_name'', ''District_Name'']
       = (Some ''StateCode'', Some ''District_Name'')
   \<and> map_of (lower_cols_of [''State'', ''x'', ''STATE'']) ''state'' = Some ''STATE''"
proof -
  have d: "distinct (map lower [''ID'', ''StateCode'', ''state_name'', ''District_Name''])"
    by (simp add: lower_def lower_char_def)
  from d C9_first_header_when_distinct
      [of "[''ID'', ''StateCode'', ''state_name'', ''District_Name'']" "''state''"]
    C9_first_header_when_distinct [of "[''State'', ''x'', ''STATE'']" "''state''"]
  show ?thesis
    by (simp add: lower_def lower_char_def sublist_code)
qed

text \<open>
  C10. For a file with a header and no data row the processor reads one empty chunk: it
  appends the header line to the output file, leaves the audit log alone, and prints that
  the file has no rows to remove (after the notice of missing role columns, when there
  are none).
\<close>

theorem C10_header_only_file:
  "rows csv = [] \<Longrightarrow>
   \<exists>w'. process_file p csv w = Inr w'
     \<and> cleaned_files w' p = Some (existing (cleaned_files w p) @ [Fields COMMA (columns csv)])
     \<and> log_file w' = log_file w
     \<and> stdout w' = stdout w
         @ (if state_district_columns (columns csv) = (None, None)
            then [''[SKIP] No state/district columns in '' @ path_str p] else [])
         @ [''[CLEAN] No rows with value 100000 in '' @ path_str p]"
  unfolding process_file_effect
  by (simp add: wrote_def to_csv_def file_messages_def read_csv_def chunk_messages_def
      removed_blocks_Cons)

theorem C10_witness:
  "cleaned_files
     (result_world (process_file [''h.csv''] \<lparr>columns = [''code''], rows = []\<rparr> fresh_world))
     [''h.csv'']
     = Some [Fields COMMA [''code'']]
   \<and> log_file
       (result_world (process_file [''h.csv''] \<lparr>columns = [''code''], rows = []\<rparr> fresh_world))
     = None
   \<and> stdout
       (result_world (process_file [''h.csv''] \<lparr>columns = [''code''], rows = []\<rparr> fresh_world))
     = [''[SKIP] No state/district columns in h.csv'',
        ''[CLEAN] No rows with value 100000 in h.csv'']"
  using C10_header_only_file [of "\<lparr>columns = [''code''], rows = []\<rparr>" "[''h.csv'']" fresh_world]
  by (auto simp: result_world_def fresh_world_def existing_def detect_none)

text \<open>
  The output file of a header-only input exists after the run and holds the header.
\<close>

theorem C10_counterexample:
  "cleaned_files
     (result_world (process_file [''h.csv''] \<lparr>columns = [''state''], rows = []\<rparr> fresh_world))
     [''h.csv'']
     = Some [Fields COMMA [''state'']]
   \<and> cleaned_files
       (result_world (process_file [''h.csv''] \<lparr>columns = [''state''], rows = []\<rparr> fresh_world))
       [''h.csv'']
     \<noteq> None"
  unfolding process_file_effect
  by (simp add: result_world_def fresh_world_def wrote_def existing_def to_csv_def)

end
